theory Spec2Isabelle
  imports Complex_Main "HOL-Library.Char_ord" "HOL-Library.List_Lexorder"
begin

section \<open>Data model\<close>

text \<open>
  The tables of the migration (users, venues, slots, bookings, reviews) as lists of rows, in
  insertion order. Only the columns that the booking, slot and review services read or write
  are kept; \<open>createdAt\<close>, \<open>updatedAt\<close>, \<open>maxBookings\<close>, \<open>currentBookings\<close>
  and \<open>paymentId\<close> are maintained by the store and never read by the operations below.

  A calendar day (column \<open>slots.date\<close>, type DATE) is the number of days since the epoch.
  A JavaScript \<open>Date\<close> is its time value in milliseconds since the epoch, \<open>None\<close> being
  the Invalid Date. Local time is taken to be UTC. A JavaScript number is a rational or
  \<open>NaN\<close>; the rounding error of doubles is not modelled.
\<close>

datatype SlotStatus = AVAILABLE | BOOKED | BLOCKED

datatype BookingStatus = PENDING | CONFIRMED | CANCELLED | COMPLETED

datatype PaymentStatus = PAYMENT_PENDING | PAID | REFUNDED | FAILED

datatype Role = USER | ADMIN

datatype jsnum = Num rat | NaN

type_synonym jsdate = "int option"

record User =
  user_id :: string
  user_role :: Role

record Venue =
  venue_id :: string
  venue_pricePerHour :: rat

record Slot =
  slot_id :: string
  slot_venueId :: string
  slot_date :: int
  slot_startTime :: string
  slot_endTime :: string
  slot_status :: SlotStatus

record Booking =
  booking_id :: string
  booking_userId :: string
  booking_slotId :: string
  booking_status :: BookingStatus
  booking_totalPrice :: jsnum
  booking_paymentStatus :: PaymentStatus
  booking_refundAmount :: "jsnum option"

record Review =
  review_id :: string
  review_userId :: string
  review_venueId :: string
  review_rating :: int
  review_comment :: "string option"

record db =
  users :: "User list"
  venues :: "Venue list"
  slots :: "Slot list"
  bookings :: "Booking list"
  reviews :: "Review list"

text \<open>
  \<open>AppError statusCode code message\<close> is the service's own error class; \<open>PrismaError code\<close>
  is an error raised by the store (P2025 record to update not found, P2003 foreign key,
  P2002 unique constraint, \<open>VALIDATION\<close> for an invalid argument); \<open>TypeError\<close> is
  the runtime's, for a property read on \<open>null\<close>.
\<close>

datatype error = AppError nat string string | PrismaError string | TypeError

section \<open>JavaScript numbers, parsing and rounding\<close>

fun jadd :: "jsnum \<Rightarrow> jsnum \<Rightarrow> jsnum" where
  "jadd (Num a) (Num b) = Num (a + b)"
| "jadd _ _ = NaN"

fun jsub :: "jsnum \<Rightarrow> jsnum \<Rightarrow> jsnum" where
  "jsub (Num a) (Num b) = Num (a - b)"
| "jsub _ _ = NaN"

fun jmul :: "jsnum \<Rightarrow> jsnum \<Rightarrow> jsnum" where
  "jmul (Num a) (Num b) = Num (a * b)"
| "jmul _ _ = NaN"

text \<open>Division by a literal; the divisors of the source are 60, 100 and 3600000.\<close>

fun jdiv :: "jsnum \<Rightarrow> rat \<Rightarrow> jsnum" where
  "jdiv (Num a) c = Num (a / c)"
| "jdiv NaN c = NaN"

text \<open>\<open>Math.round\<close>: the nearest integer, a tie going up.\<close>

fun Math_round :: "jsnum \<Rightarrow> jsnum" where
  "Math_round (Num a) = Num (of_int \<lfloor>a + 1 / 2\<rfloor>)"
| "Math_round NaN = NaN"

text \<open>Comparisons with \<open>NaN\<close> are false.\<close>

fun jgt :: "jsnum \<Rightarrow> jsnum \<Rightarrow> bool" where
  "jgt (Num a) (Num b) = (a > b)"
| "jgt _ _ = False"

fun jge :: "jsnum \<Rightarrow> jsnum \<Rightarrow> bool" where
  "jge (Num a) (Num b) = (a \<ge> b)"
| "jge _ _ = False"

text \<open>\<open>d.getTime()\<close>, and \<open>d1 < d2\<close> on two dates (a comparison of the time values).\<close>

fun getTime :: "jsdate \<Rightarrow> jsnum" where
  "getTime (Some t) = Num (of_int t)"
| "getTime None = NaN"

definition date_lt :: "jsdate \<Rightarrow> jsdate \<Rightarrow> bool" where
  "date_lt a b = jgt (getTime b) (getTime a)"

definition date_le :: "jsdate \<Rightarrow> jsdate \<Rightarrow> bool" where
  "date_le a b = jge (getTime b) (getTime a)"

text \<open>\<open>s.split(':')\<close>: the pieces of \<open>s\<close> between the colons; never the empty list.\<close>

fun split_colon :: "string \<Rightarrow> string list" where
  "split_colon [] = [[]]"
| "split_colon (c # cs) =
     (if c = CHR '':'' then [] # split_colon cs
      else (case split_colon cs of p # ps \<Rightarrow> (c # p) # ps | [] \<Rightarrow> [[c]]))"

text \<open>The value of a decimal digit, by its character code (48 to 57).\<close>

definition digit_of :: "char \<Rightarrow> nat option" where
  "digit_of c =
     (let code = (of_char c :: nat)
      in if 48 \<le> code \<and> code \<le> 57 then Some (code - 48) else None)"

fun digits_val :: "nat \<Rightarrow> string \<Rightarrow> nat option" where
  "digits_val acc [] = Some acc"
| "digits_val acc (c # cs) =
     (case digit_of c of None \<Rightarrow> None | Some v \<Rightarrow> digits_val (acc * 10 + v) cs)"

text \<open>
  \<open>Number(s)\<close> on the strings that the time columns hold: a run of decimal digits is its
  value and the empty string is 0. Any other string is \<open>NaN\<close> here; the signs, fractions,
  exponents, prefixes and blanks that \<open>Number\<close> also reads occur in no stored time.
\<close>

definition Number :: "string \<Rightarrow> jsnum" where
  "Number s = (case digits_val 0 s of Some n \<Rightarrow> Num (of_nat n) | None \<Rightarrow> NaN)"

text \<open>
  \<open>const [hours, minutes] = t.split(':').map(Number)\<close>; a missing second piece is
  \<open>undefined\<close>, which arithmetic turns into \<open>NaN\<close>.
\<close>

definition hours_minutes :: "string \<Rightarrow> jsnum \<times> jsnum" where
  "hours_minutes t =
     (case map Number (split_colon t) of
        h # m # _ \<Rightarrow> (h, m)
      | [h] \<Rightarrow> (h, NaN)
      | [] \<Rightarrow> (NaN, NaN))"

section \<open>Booking service: price and refund\<close>

text \<open>\<open>BookingService.calculatePrice\<close>, on the string form of both times (the column type).\<close>

definition calculatePrice :: "string \<Rightarrow> string \<Rightarrow> rat \<Rightarrow> jsnum" where
  "calculatePrice startTime endTime pricePerHour =
     (let (startHours, startMinutes) = hours_minutes startTime;
          (endHours, endMinutes) = hours_minutes endTime;
          startTotalMinutes = jadd (jmul startHours (Num 60)) startMinutes;
          endTotalMinutes = jadd (jmul endHours (Num 60)) endMinutes;
          durationMinutes = jsub endTotalMinutes startTotalMinutes;
          durationHours = jdiv durationMinutes 60
      in jdiv (Math_round (jmul (jmul durationHours (Num pricePerHour)) (Num 100))) 100)"

record RefundInfo =
  eligible :: bool
  percentage :: rat
  amount :: jsnum
  refund_reason :: string

text \<open>\<open>BookingService.calculateRefund\<close>; \<open>now\<close> is the value of \<open>new Date()\<close>.\<close>

definition calculateRefund :: "int \<Rightarrow> jsdate \<Rightarrow> jsnum \<Rightarrow> RefundInfo" where
  "calculateRefund now slotStartTime totalPrice =
     (let hoursUntilStart = jdiv (jsub (getTime slotStartTime) (Num (of_int now))) (1000 * 60 * 60);
          (pct, why) =
            (if jgt hoursUntilStart (Num 24)
               then (100, ''Cancelled more than 24 hours before start'')
             else if jge hoursUntilStart (Num 12)
               then (50, ''Cancelled 12-24 hours before start'')
             else (0, ''Cancelled less than 12 hours before start''));
          amt = jdiv (Math_round (jmul (jdiv (jmul totalPrice (Num pct)) 100) (Num 100))) 100
      in \<lparr>eligible = (pct > 0), percentage = pct, amount = amt, refund_reason = why\<rparr>)"

section \<open>The store\<close>

definition findUser :: "db \<Rightarrow> string \<Rightarrow> User option" where
  "findUser d uid = find (\<lambda>u. user_id u = uid) (users d)"

definition findVenue :: "db \<Rightarrow> string \<Rightarrow> Venue option" where
  "findVenue d vid = find (\<lambda>v. venue_id v = vid) (venues d)"

definition findSlot :: "db \<Rightarrow> string \<Rightarrow> Slot option" where
  "findSlot d sid = find (\<lambda>s. slot_id s = sid) (slots d)"

definition findBooking :: "db \<Rightarrow> string \<Rightarrow> Booking option" where
  "findBooking d bid = find (\<lambda>b. booking_id b = bid) (bookings d)"

text \<open>\<open>slot.update({where: {id}, data: {status}})\<close>: P2025 when no row has the id.\<close>

definition updateSlotStatus :: "string \<Rightarrow> SlotStatus \<Rightarrow> db \<Rightarrow> error + db" where
  "updateSlotStatus sid st d =
     (case findSlot d sid of
        None \<Rightarrow> Inl (PrismaError ''P2025'')
      | Some _ \<Rightarrow>
          Inr (d\<lparr>slots := map (\<lambda>s. if slot_id s = sid then s\<lparr>slot_status := st\<rparr> else s) (slots d)\<rparr>))"

text \<open>
  \<open>booking.create\<close>: the row is appended; the foreign keys of the migration
  (\<open>bookings_userId_fkey\<close>, \<open>bookings_slotId_fkey\<close>) reject a user or slot that is absent.
\<close>

definition insertBooking :: "Booking \<Rightarrow> db \<Rightarrow> error + db" where
  "insertBooking b d =
     (if findUser d (booking_userId b) = None then Inl (PrismaError ''P2003'')
      else if findSlot d (booking_slotId b) = None then Inl (PrismaError ''P2003'')
      else Inr (d\<lparr>bookings := bookings d @ [b]\<rparr>))"

text \<open>\<open>booking.update({where: {id}, data})\<close>, the data given as a function on the row.\<close>

definition updateBooking :: "string \<Rightarrow> (Booking \<Rightarrow> Booking) \<Rightarrow> db \<Rightarrow> error + Booking \<times> db" where
  "updateBooking bid f d =
     (case findBooking d bid of
        None \<Rightarrow> Inl (PrismaError ''P2025'')
      | Some b \<Rightarrow>
          Inr (f b, d\<lparr>bookings := map (\<lambda>x. if booking_id x = bid then f x else x) (bookings d)\<rparr>))"

text \<open>
  \<open>review.create\<close>: foreign keys to users and venues, and the unique index
  \<open>reviews_userId_venueId_key\<close>.
\<close>

definition insertReview :: "Review \<Rightarrow> db \<Rightarrow> error + db" where
  "insertReview r d =
     (if findUser d (review_userId r) = None then Inl (PrismaError ''P2003'')
      else if findVenue d (review_venueId r) = None then Inl (PrismaError ''P2003'')
      else if list_ex (\<lambda>x. review_userId x = review_userId r \<and> review_venueId x = review_venueId r)
                (reviews d)
        then Inl (PrismaError ''P2002'')
      else Inr (d\<lparr>reviews := reviews d @ [r]\<rparr>))"

text \<open>
  \<open>prisma.$transaction\<close>: the writes of the body are kept when it returns and dropped when
  it throws.
\<close>

definition transaction :: "(db \<Rightarrow> error + 'a \<times> db) \<Rightarrow> db \<Rightarrow> (error + 'a) \<times> db" where
  "transaction body d =
     (case body d of Inl e \<Rightarrow> (Inl e, d) | Inr (x, d') \<Rightarrow> (Inr x, d'))"

section \<open>Booking service: availability, creation, cancellation, status\<close>

record SlotInfo =
  info_id :: string
  info_startTime :: string
  info_endTime :: string
  info_status :: SlotStatus

record SlotAvailability =
  available :: bool
  reason :: "string option"
  slot :: "SlotInfo option"

definition slotInfo :: "Slot \<Rightarrow> SlotInfo" where
  "slotInfo s = \<lparr>info_id = slot_id s, info_startTime = slot_startTime s,
                 info_endTime = slot_endTime s, info_status = slot_status s\<rparr>"

fun statusLower :: "SlotStatus \<Rightarrow> string" where
  "statusLower AVAILABLE = ''available''"
| "statusLower BOOKED = ''booked''"
| "statusLower BLOCKED = ''blocked''"

definition isActive :: "BookingStatus \<Rightarrow> bool" where
  "isActive st = (st = PENDING \<or> st = CONFIRMED)"

text \<open>The relation \<open>bookings\<close> of a slot, filtered to PENDING and CONFIRMED.\<close>

definition activeBookings :: "db \<Rightarrow> string \<Rightarrow> Booking list" where
  "activeBookings d sid =
     filter (\<lambda>b. booking_slotId b = sid \<and> isActive (booking_status b)) (bookings d)"

text \<open>
  \<open>BookingService.checkSlotAvailability\<close>. \<open>parseDate\<close> is the runtime's
  \<open>new Date(string)\<close>, applied to the text of the column \<open>startTime\<close>; \<open>now\<close> is
  \<open>new Date()\<close>.
\<close>

definition checkSlotAvailability ::
  "(string \<Rightarrow> jsdate) \<Rightarrow> int \<Rightarrow> db \<Rightarrow> string \<Rightarrow> SlotAvailability" where
  "checkSlotAvailability parseDate now d slotId =
     (case findSlot d slotId of
        None \<Rightarrow> \<lparr>available = False, reason = Some ''Slot not found'', slot = None\<rparr>
      | Some s \<Rightarrow>
          if slot_status s \<noteq> AVAILABLE
            then \<lparr>available = False, reason = Some (''Slot is '' @ statusLower (slot_status s)),
                  slot = Some (slotInfo s)\<rparr>
          else if length (activeBookings d slotId) > 0
            then \<lparr>available = False, reason = Some ''Slot already has an active booking'',
                  slot = Some (slotInfo s)\<rparr>
          else if date_lt (parseDate (slot_startTime s)) (Some now)
            then \<lparr>available = False, reason = Some ''Cannot book a past slot'',
                  slot = Some (slotInfo s)\<rparr>
          else \<lparr>available = True, reason = None, slot = Some (slotInfo s)\<rparr>)"

text \<open>
  \<open>BookingService.createBooking\<close> awaits three times: the availability check, the read
  of the slot with its venue, and the transaction. Each is one function here.
\<close>

definition cb_check :: "(string \<Rightarrow> jsdate) \<Rightarrow> int \<Rightarrow> db \<Rightarrow> string \<Rightarrow> error option" where
  "cb_check parseDate now d slotId =
     (let availability = checkSlotAvailability parseDate now d slotId
      in if \<not> available availability
           then Some (AppError 409 ''CONFLICT''
                  (case reason availability of
                     None \<Rightarrow> ''Slot is not available''
                   | Some r \<Rightarrow> if r = [] then ''Slot is not available'' else r))
         else None)"

definition cb_price :: "db \<Rightarrow> string \<Rightarrow> error + jsnum" where
  "cb_price d slotId =
     (case findSlot d slotId of
        None \<Rightarrow> Inl (AppError 404 ''NOT_FOUND'' ''Slot not found'')
      | Some s \<Rightarrow>
          (case findVenue d (slot_venueId s) of
             None \<Rightarrow> Inl TypeError
           | Some v \<Rightarrow> Inr (calculatePrice (slot_startTime s) (slot_endTime s) (venue_pricePerHour v))))"

text \<open>The transaction; \<open>newId\<close> is the identifier that the store gives the new row.\<close>

definition cb_commit :: "string \<Rightarrow> string \<Rightarrow> string \<Rightarrow> jsnum \<Rightarrow> db \<Rightarrow> (error + Booking) \<times> db" where
  "cb_commit newId slotId userId totalPrice d =
     transaction (\<lambda>tx.
       case updateSlotStatus slotId BOOKED tx of
         Inl e \<Rightarrow> Inl e
       | Inr tx1 \<Rightarrow>
           (let b = \<lparr>booking_id = newId, booking_userId = userId, booking_slotId = slotId,
                     booking_status = PENDING, booking_totalPrice = totalPrice,
                     booking_paymentStatus = PAYMENT_PENDING, booking_refundAmount = None\<rparr>
            in case insertBooking b tx1 of Inl e \<Rightarrow> Inl e | Inr tx2 \<Rightarrow> Inr (b, tx2))) d"

definition createBooking ::
  "(string \<Rightarrow> jsdate) \<Rightarrow> int \<Rightarrow> string \<Rightarrow> db \<Rightarrow> string \<Rightarrow> string \<Rightarrow> (error + Booking) \<times> db" where
  "createBooking parseDate now newId d slotId userId =
     (case cb_check parseDate now d slotId of
        Some e \<Rightarrow> (Inl e, d)
      | None \<Rightarrow>
          (case cb_price d slotId of
             Inl e \<Rightarrow> (Inl e, d)
           | Inr totalPrice \<Rightarrow> cb_commit newId slotId userId totalPrice d))"

text \<open>\<open>BookingService.cancelBooking\<close>.\<close>

definition cancelBooking ::
  "(string \<Rightarrow> jsdate) \<Rightarrow> int \<Rightarrow> db \<Rightarrow> string \<Rightarrow> string \<Rightarrow> bool \<Rightarrow> (error + Booking) \<times> db" where
  "cancelBooking parseDate now d bid userId isAdmin =
     (case findBooking d bid of
        None \<Rightarrow> (Inl (AppError 404 ''NOT_FOUND'' ''Booking not found''), d)
      | Some booking \<Rightarrow>
          if \<not> isAdmin \<and> booking_userId booking \<noteq> userId
            then (Inl (AppError 403 ''FORBIDDEN'' ''You can only cancel your own bookings''), d)
          else if booking_status booking = CANCELLED
            then (Inl (AppError 400 ''INVALID_STATUS'' ''Booking is already cancelled''), d)
          else if booking_status booking = COMPLETED
            then (Inl (AppError 400 ''INVALID_STATUS'' ''Cannot cancel a completed booking''), d)
          else
            (case findSlot d (booking_slotId booking) of
               None \<Rightarrow> (Inl TypeError, d)
             | Some s \<Rightarrow>
                 (let refundInfo = calculateRefund now (parseDate (slot_startTime s))
                                     (booking_totalPrice booking)
                  in transaction (\<lambda>tx.
                       case updateSlotStatus (booking_slotId booking) AVAILABLE tx of
                         Inl e \<Rightarrow> Inl e
                       | Inr tx1 \<Rightarrow>
                           updateBooking bid (\<lambda>b. b\<lparr>booking_status := CANCELLED,
                               booking_refundAmount := Some (amount refundInfo),
                               booking_paymentStatus :=
                                 (if jgt (amount refundInfo) (Num 0) then REFUNDED
                                  else booking_paymentStatus booking)\<rparr>) tx1) d)))"

text \<open>\<open>BookingService.updateBookingStatus\<close> (admin only, on the route).\<close>

definition updateBookingStatus :: "db \<Rightarrow> string \<Rightarrow> BookingStatus \<Rightarrow> (error + Booking) \<times> db" where
  "updateBookingStatus d bid newStatus =
     (case findBooking d bid of
        None \<Rightarrow> (Inl (AppError 404 ''NOT_FOUND'' ''Booking not found''), d)
      | Some booking \<Rightarrow>
          (case updateBooking bid (\<lambda>b.
                  if newStatus = CONFIRMED
                    then b\<lparr>booking_status := newStatus, booking_paymentStatus := PAID\<rparr>
                  else b\<lparr>booking_status := newStatus\<rparr>) d of
             Inl e \<Rightarrow> (Inl e, d)
           | Inr (updatedBooking, d') \<Rightarrow> (Inr updatedBooking, d')))"

section \<open>Review service\<close>

text \<open>\<open>ReviewService.createReview\<close>.\<close>

definition createReview ::
  "string \<Rightarrow> db \<Rightarrow> string \<Rightarrow> int \<Rightarrow> string option \<Rightarrow> string \<Rightarrow> (error + Review) \<times> db" where
  "createReview newId d venueId rating comment userId =
     (case findVenue d venueId of
        None \<Rightarrow> (Inl (AppError 404 ''NOT_FOUND'' ''Venue not found''), d)
      | Some venue \<Rightarrow>
          if list_ex (\<lambda>r. review_userId r = userId \<and> review_venueId r = venueId) (reviews d)
            then (Inl (AppError 409 ''DUPLICATE_REVIEW''
                    ''You have already reviewed this venue. You can update your existing review.''), d)
          else if \<not> list_ex (\<lambda>b. booking_userId b = userId \<and> booking_status b = COMPLETED \<and>
                      (case findSlot d (booking_slotId b) of
                         None \<Rightarrow> False
                       | Some s \<Rightarrow> slot_venueId s = venueId)) (bookings d)
            then (Inl (AppError 403 ''NO_COMPLETED_BOOKING''
                    ''You must have a completed booking at this venue to leave a review''), d)
          else
            (let r = \<lparr>review_id = newId, review_userId = userId, review_venueId = venueId,
                      review_rating = rating, review_comment = comment\<rparr>
             in case insertReview r d of Inl e \<Rightarrow> (Inl e, d) | Inr d' \<Rightarrow> (Inr r, d')))"

section \<open>Auxiliary predicates and example data\<close>

text \<open>The result is an \<open>AppError\<close> with the given HTTP status.\<close>

definition failsWith :: "nat \<Rightarrow> (error + 'a) \<times> db \<Rightarrow> bool" where
  "failsWith code r = (case fst r of Inl (AppError c _ _) \<Rightarrow> c = code | _ \<Rightarrow> False)"

text \<open>The foreign key \<open>bookings_slotId_fkey\<close>: the slot of every booking is a row of \<open>slots\<close>.\<close>

definition bookingsHaveSlots :: "db \<Rightarrow> bool" where
  "bookingsHaveSlots d = list_all (\<lambda>b. findSlot d (booking_slotId b) \<noteq> None) (bookings d)"

text \<open>
  A venue at 40.00 per hour with one slot from 10:00 to 12:00 on day 20000, first free, then
  booked by user \<open>u1\<close>.
\<close>

definition exUsers :: "User list" where
  "exUsers = [\<lparr>user_id = ''u1'', user_role = USER\<rparr>, \<lparr>user_id = ''u2'', user_role = USER\<rparr>,
              \<lparr>user_id = ''a1'', user_role = ADMIN\<rparr>]"

definition exSlot :: Slot where
  "exSlot = \<lparr>slot_id = ''s1'', slot_venueId = ''v1'', slot_date = 20000,
             slot_startTime = ''10:00'', slot_endTime = ''12:00'', slot_status = AVAILABLE\<rparr>"

definition exBooking :: Booking where
  "exBooking = \<lparr>booking_id = ''b1'', booking_userId = ''u1'', booking_slotId = ''s1'',
                booking_status = PENDING, booking_totalPrice = Num 80,
                booking_paymentStatus = PAYMENT_PENDING, booking_refundAmount = None\<rparr>"

definition exDb :: db where
  "exDb = \<lparr>users = exUsers, venues = [\<lparr>venue_id = ''v1'', venue_pricePerHour = 40\<rparr>],
           slots = [exSlot], bookings = [], reviews = []\<rparr>"

definition exBooked :: db where
  "exBooked = exDb\<lparr>slots := [exSlot\<lparr>slot_status := BOOKED\<rparr>], bookings := [exBooking]\<rparr>"

text \<open>
  The spec's \<open>round(x, 2)\<close>: rounding to cents, a tie going up.
\<close>

definition spec_round2 :: "rat \<Rightarrow> rat" where
  "spec_round2 x = of_int \<lfloor>x * 100 + 1 / 2\<rfloor> / 100"


text \<open>The booked example after the administrator marked the booking COMPLETED.\<close>

definition exCompleted :: db where
  "exCompleted = exBooked\<lparr>bookings := [exBooking\<lparr>booking_status := COMPLETED\<rparr>]\<rparr>"

text \<open>
  The booked example with its slot a year later, and the free example with its slot on day 0
  (1970-01-01); the time of day of the slot is the same in all of them.
\<close>

definition exLater :: db where
  "exLater = exBooked\<lparr>slots := [exSlot\<lparr>slot_status := BOOKED, slot_date := 20365\<rparr>]\<rparr>"

definition exPast :: db where
  "exPast = exDb\<lparr>slots := [exSlot\<lparr>slot_date := 0\<rparr>]\<rparr>"

text \<open>10:00 on day 20000, in milliseconds, and the instant 25 hours before it.\<close>

definition exStart :: int where
  "exStart = 20000 * 86400000 + 10 * 3600000"

definition exNow25 :: int where
  "exNow25 = exStart - 25 * 3600000"

section \<open>Slot service: dates and times of day\<close>

text \<open>
  \<open>d.setHours(h, m, 0, 0)\<close> in local time (UTC): the day of \<open>d\<close> is kept, its time of
  day replaced. The arguments are whole and non-negative in every call of the source. An
  Invalid Date stays invalid, and \<open>NaN\<close> makes the date invalid.
\<close>

fun setHours :: "jsdate \<Rightarrow> jsnum \<Rightarrow> jsnum \<Rightarrow> jsdate" where
  "setHours (Some t) (Num h) (Num m) = Some (t - t mod 86400000 + \<lfloor>h\<rfloor> * 3600000 + \<lfloor>m\<rfloor> * 60000)"
| "setHours _ _ _ = None"

text \<open>\<open>d.setDate(d.getDate() + 1)\<close>: the same time on the next day.\<close>

fun nextDay :: "jsdate \<Rightarrow> jsdate" where
  "nextDay (Some t) = Some (t + 86400000)"
| "nextDay None = None"

text \<open>\<open>new Date(dateStr)\<close> for a day given as YYYY-MM-DD: midnight UTC of that day.\<close>

definition dateOfDay :: "int \<Rightarrow> jsdate" where
  "dateOfDay day = Some (day * 86400000)"

definition two_digits :: "int \<Rightarrow> string" where
  "two_digits n = [''0123456789'' ! nat (n div 10 mod 10), ''0123456789'' ! nat (n mod 10)]"

text \<open>
  \<open>d.toTimeString().slice(0, 5)\<close>: the local time as HH:MM; the text of an Invalid Date
  is \<open>Invalid Date\<close>.
\<close>

fun toTimeString5 :: "jsdate \<Rightarrow> string" where
  "toTimeString5 (Some t) =
     two_digits (t mod 86400000 div 3600000) @ '':'' @ two_digits (t mod 3600000 div 60000)"
| "toTimeString5 None = ''Inval''"

section \<open>Slot service: overlap\<close>

text \<open>The loop of \<open>SlotService.hasSlotOverlap\<close> over the slots found.\<close>

fun overlap_loop :: "string \<Rightarrow> string \<Rightarrow> Slot list \<Rightarrow> bool" where
  "overlap_loop startTimeStr endTimeStr [] = False"
| "overlap_loop startTimeStr endTimeStr (sl # rest) =
     (let slotStart = slot_startTime sl; slotEnd = slot_endTime sl
      in if (startTimeStr < slotEnd \<and> endTimeStr > slotStart) \<or>
            (startTimeStr \<le> slotStart \<and> endTimeStr \<ge> slotEnd)
           then True
         else overlap_loop startTimeStr endTimeStr rest)"

text \<open>
  \<open>slot.findMany\<close> with the venue, the day and, when \<open>excludeSlotId\<close> is given and not
  the empty string, every identifier but that one.
\<close>

definition slotsOnDate :: "db \<Rightarrow> string \<Rightarrow> int \<Rightarrow> string option \<Rightarrow> Slot list" where
  "slotsOnDate d venueId day excludeSlotId =
     filter (\<lambda>s. slot_venueId s = venueId \<and> slot_date s = day \<and>
                 (case excludeSlotId of
                    None \<Rightarrow> True
                  | Some e \<Rightarrow> if e = [] then True else slot_id s \<noteq> e)) (slots d)"

text \<open>
  \<open>SlotService.hasSlotOverlap\<close>. The store rejects a query whose date is invalid.
\<close>

definition hasSlotOverlap :: "db \<Rightarrow> string \<Rightarrow> jsdate \<Rightarrow> jsdate \<Rightarrow> string option \<Rightarrow> error + bool" where
  "hasSlotOverlap d venueId startTime endTime excludeSlotId =
     (let date = setHours startTime (Num 0) (Num 0);
          startTimeStr = toTimeString5 startTime;
          endTimeStr = toTimeString5 endTime
      in case date of
           None \<Rightarrow> Inl (PrismaError ''VALIDATION'')
         | Some t \<Rightarrow>
             Inr (overlap_loop startTimeStr endTimeStr
                    (slotsOnDate d venueId (t div 86400000) excludeSlotId)))"

section \<open>Slot service: bulk creation\<close>

record SlotData =
  data_venueId :: string
  data_date :: int
  data_startTime :: string
  data_endTime :: string
  data_status :: SlotStatus

text \<open>
  The body of the two nested loops of \<open>SlotService.createBulkSlots\<close>, for one day and one
  template. The end rolled over to the next day is computed as in the source; the object
  pushed holds the day and the two texts of the template.
\<close>

definition genSlot :: "string \<Rightarrow> SlotStatus option \<Rightarrow> int \<Rightarrow> string \<times> string \<Rightarrow> SlotData" where
  "genSlot venueId status dateStr timeSlot =
     (let (startHour, startMinute) = hours_minutes (fst timeSlot);
          (endHour, endMinute) = hours_minutes (snd timeSlot);
          startTime = setHours (dateOfDay dateStr) startHour startMinute;
          endTime = setHours (dateOfDay dateStr) endHour endMinute;
          endTimeRolled = (if date_le endTime startTime then nextDay endTime else endTime)
      in \<lparr>data_venueId = venueId, data_date = dateStr,
          data_startTime = fst timeSlot, data_endTime = snd timeSlot,
          data_status = (case status of None \<Rightarrow> AVAILABLE | Some st \<Rightarrow> st)\<rparr>)"

definition slotsToCreate ::
  "string \<Rightarrow> SlotStatus option \<Rightarrow> int list \<Rightarrow> (string \<times> string) list \<Rightarrow> SlotData list" where
  "slotsToCreate venueId status dates timeSlots =
     concat (map (\<lambda>dateStr. map (genSlot venueId status dateStr) timeSlots) dates)"

text \<open>\<open>slot.create\<close>: the row is appended; the foreign key rejects an absent venue.\<close>

definition insertSlot :: "Slot \<Rightarrow> db \<Rightarrow> error + db" where
  "insertSlot s d =
     (if findVenue d (slot_venueId s) = None then Inl (PrismaError ''P2003'')
      else Inr (d\<lparr>slots := slots d @ [s]\<rparr>))"

text \<open>
  One callback of \<open>slotsToCreate.map\<close>. \<open>seen\<close> is the store that its overlap query
  reads, \<open>cur\<close> the store that its creation writes to, \<open>newId\<close> the identifier of the
  new row.
\<close>

definition bulkTask :: "db \<Rightarrow> string \<Rightarrow> SlotData \<Rightarrow> db \<Rightarrow> (error + Slot option) \<times> db" where
  "bulkTask seen newId slotData cur =
     (let (startHour, startMin) = hours_minutes (data_startTime slotData);
          (endHour, endMin) = hours_minutes (data_endTime slotData);
          startDate = setHours (dateOfDay (data_date slotData)) startHour startMin;
          endDate = setHours (dateOfDay (data_date slotData)) endHour endMin
      in case hasSlotOverlap seen (data_venueId slotData) startDate endDate None of
           Inl e \<Rightarrow> (Inl e, cur)
         | Inr hasOverlap \<Rightarrow>
             if \<not> hasOverlap
               then (let s = \<lparr>slot_id = newId, slot_venueId = data_venueId slotData,
                               slot_date = data_date slotData,
                               slot_startTime = data_startTime slotData,
                               slot_endTime = data_endTime slotData,
                               slot_status = data_status slotData\<rparr>
                     in case insertSlot s cur of
                          Inl e \<Rightarrow> (Inl e, cur)
                        | Inr cur' \<Rightarrow> (Inr (Some s), cur'))
             else (Inr None, cur))"

text \<open>
  \<open>Promise.all(slotsToCreate.map(async ...))\<close>. Every callback runs up to its first
  \<open>await\<close>, the overlap query, before any callback goes on, so all the queries are issued
  before any creation is: each query reads the store as it was at the call, and the
  creations follow in the order of the candidates. The \<open>n\<close>-th candidate gets the
  identifier \<open>newId n\<close>.
\<close>

fun runTasks :: "db \<Rightarrow> (nat \<Rightarrow> string) \<Rightarrow> nat \<Rightarrow> SlotData list \<Rightarrow> db \<Rightarrow> (error + Slot option) list \<times> db" where
  "runTasks seen newId n [] cur = ([], cur)"
| "runTasks seen newId n (c # cs) cur =
     (let (r, cur1) = bulkTask seen (newId n) c cur;
          (rs, cur2) = runTasks seen newId (Suc n) cs cur1
      in (r # rs, cur2))"

text \<open>The rejection of \<open>Promise.all\<close>, if any, else the results.\<close>

fun collect :: "(error + 'a) list \<Rightarrow> error + 'a list" where
  "collect [] = Inr []"
| "collect (Inl e # rs) = Inl e"
| "collect (Inr x # rs) = (case collect rs of Inl e \<Rightarrow> Inl e | Inr xs \<Rightarrow> Inr (x # xs))"

record BulkResult =
  created :: nat
  created_slots :: "Slot list"

text \<open>\<open>SlotService.createBulkSlots\<close>.\<close>

definition createBulkSlots ::
  "(nat \<Rightarrow> string) \<Rightarrow> db \<Rightarrow> string \<Rightarrow> int list \<Rightarrow> (string \<times> string) list \<Rightarrow> SlotStatus option
     \<Rightarrow> string \<Rightarrow> (error + BulkResult) \<times> db" where
  "createBulkSlots newId d venueId dates timeSlots status userId =
     (case findVenue d venueId of
        None \<Rightarrow> (Inl (AppError 404 ''NOT_FOUND'' ''Venue not found''), d)
      | Some venue \<Rightarrow>
          (case findUser d userId of
             None \<Rightarrow> (Inl (AppError 404 ''NOT_FOUND'' ''User not found''), d)
           | Some user \<Rightarrow>
               if user_role user \<noteq> ADMIN
                 then (Inl (AppError 403 ''FORBIDDEN'' ''Only admin can create slots''), d)
               else
                 (let (results, d') = runTasks d newId 0 (slotsToCreate venueId status dates timeSlots) d
                  in case collect results of
                       Inl e \<Rightarrow> (Inl e, d')
                     | Inr rs \<Rightarrow>
                         (let createdSlots = List.map_filter (\<lambda>r. r) rs
                          in (Inr \<lparr>created = length createdSlots, created_slots = createdSlots\<rparr>, d')))))"



definition exIds :: "nat \<Rightarrow> string" where
  "exIds n = ''n'' @ [''0123456789'' ! (n mod 10)]"


text \<open>
  The pattern of \<open>CreateBulkSlotsSchema\<close> for a template time,
  \<open>^([0-1]?[0-9]|2[0-3]):[0-5][0-9]$\<close>.
\<close>

definition isDigit :: "char \<Rightarrow> bool" where
  "isDigit c = (digit_of c \<noteq> None)"

definition validHour :: "string \<Rightarrow> bool" where
  "validHour h =
     (case h of
        [a] \<Rightarrow> isDigit a
      | [a, b] \<Rightarrow> ((a = CHR ''0'' \<or> a = CHR ''1'') \<and> isDigit b) \<or>
                  (a = CHR ''2'' \<and> (b = CHR ''0'' \<or> b = CHR ''1'' \<or> b = CHR ''2'' \<or> b = CHR ''3''))
      | _ \<Rightarrow> False)"

definition validMinute :: "string \<Rightarrow> bool" where
  "validMinute m =
     (case m of
        [a, b] \<Rightarrow> (a = CHR ''0'' \<or> a = CHR ''1'' \<or> a = CHR ''2'' \<or> a = CHR ''3'' \<or>
                   a = CHR ''4'' \<or> a = CHR ''5'') \<and> isDigit b
      | _ \<Rightarrow> False)"

definition validTime :: "string \<Rightarrow> bool" where
  "validTime t = (case split_colon t of [h, m] \<Rightarrow> validHour h \<and> validMinute m | _ \<Rightarrow> False)"

text \<open>The date that the callback builds from the day and a template time.\<close>

definition timeOn :: "int \<Rightarrow> string \<Rightarrow> jsdate" where
  "timeOn day t = (let (h, m) = hours_minutes t in setHours (dateOfDay day) h m)"







definition exEmpty :: db where
  "exEmpty = exDb\<lparr>slots := []\<rparr>"

section \<open>Concurrent calls of createBooking\<close>

text \<open>
  Requests are served on one thread and interleave at each \<open>await\<close>. A call of
  \<open>createBooking\<close> is at one of four points: before the availability check, after it,
  after the read of the slot and its venue (the price computed), or finished with its
  result. One step runs a call from one point to the next, on the store shared by all calls;
  the transaction is one step.
\<close>

datatype call_point = Started | Checked | Priced jsnum | Finished "error + Booking"

record call =
  call_now :: int
  call_newId :: string
  call_slotId :: string
  call_userId :: string
  call_point :: call_point

definition call_step :: "(string \<Rightarrow> jsdate) \<Rightarrow> call \<Rightarrow> db \<Rightarrow> call \<times> db" where
  "call_step parseDate c d =
     (case call_point c of
        Started \<Rightarrow>
          (case cb_check parseDate (call_now c) d (call_slotId c) of
             Some e \<Rightarrow> (c\<lparr>call_point := Finished (Inl e)\<rparr>, d)
           | None \<Rightarrow> (c\<lparr>call_point := Checked\<rparr>, d))
      | Checked \<Rightarrow>
          (case cb_price d (call_slotId c) of
             Inl e \<Rightarrow> (c\<lparr>call_point := Finished (Inl e)\<rparr>, d)
           | Inr totalPrice \<Rightarrow> (c\<lparr>call_point := Priced totalPrice\<rparr>, d))
      | Priced totalPrice \<Rightarrow>
          (let (r, d') = cb_commit (call_newId c) (call_slotId c) (call_userId c) totalPrice d
           in (c\<lparr>call_point := Finished r\<rparr>, d'))
      | Finished r \<Rightarrow> (c, d))"

text \<open>A schedule names, step by step, the call that runs next.\<close>

fun run :: "(string \<Rightarrow> jsdate) \<Rightarrow> nat list \<Rightarrow> call list \<times> db \<Rightarrow> call list \<times> db" where
  "run parseDate [] cfg = cfg"
| "run parseDate (i # sched) (cs, d) =
     (if i < length cs
        then (let (c', d') = call_step parseDate (cs ! i) d
              in run parseDate sched (cs[i := c'], d'))
      else run parseDate sched (cs, d))"

definition newCall :: "int \<Rightarrow> string \<Rightarrow> string \<Rightarrow> string \<Rightarrow> call" where
  "newCall now newId slotId userId =
     \<lparr>call_now = now, call_newId = newId, call_slotId = slotId, call_userId = userId,
      call_point = Started\<rparr>"

definition succeeded :: "call \<Rightarrow> bool" where
  "succeeded c = (case call_point c of Finished (Inr b) \<Rightarrow> True | _ \<Rightarrow> False)"

definition conflicted :: "call \<Rightarrow> bool" where
  "conflicted c = (case call_point c of Finished (Inl (AppError code _ _)) \<Rightarrow> code = 409 | _ \<Rightarrow> False)"

text \<open>Two users ask for slot \<open>s1\<close> of the free example, 25 hours before it starts.\<close>

definition exRace :: "call list" where
  "exRace = [newCall exNow25 ''b1'' ''s1'' ''u1'', newCall exNow25 ''b2'' ''s1'' ''u2'']"

section \<open>Lemmas on the store\<close>

lemma find_Some_mem: "find P xs = Some x \<Longrightarrow> x \<in> set xs \<and> P x"
  by (induction xs) (auto split: if_splits)

lemma find_map_id:
  assumes "\<And>x. P (g x) = P x"
  shows "find P (map g xs) = map_option g (find P xs)"
  using assms by (induction xs) auto

lemma updateSlotStatus_ok:
  "findSlot d sid = Some s \<Longrightarrow>
   updateSlotStatus sid st d =
     Inr (d\<lparr>slots := map (\<lambda>x. if slot_id x = sid then x\<lparr>slot_status := st\<rparr> else x) (slots d)\<rparr>)"
  by (simp add: updateSlotStatus_def)

lemma findBooking_slot:
  "bookingsHaveSlots d \<Longrightarrow> findBooking d bid = Some b \<Longrightarrow>
   \<exists>s. findSlot d (booking_slotId b) = Some s"
  unfolding bookingsHaveSlots_def findBooking_def
  by (auto dest!: find_Some_mem simp: list_all_iff)

section \<open>Status overwrite by the administrator\<close>

text \<open>
  C10. For every existing booking and every target status, \<open>updateBookingStatus\<close> rewrites
  the rows of \<open>bookings\<close> with that identifier (status, and payment status PAID when the
  target is CONFIRMED) and nothing else: the table of slots is the same afterwards, so the
  slot of the booking keeps its status, also when the target is CANCELLED.
\<close>

theorem updateBookingStatus_frame:
  assumes "findBooking d bid = Some b"
  shows "updateBookingStatus d bid st =
           (Inr (b\<lparr>booking_status := st,
                   booking_paymentStatus := (if st = CONFIRMED then PAID else booking_paymentStatus b)\<rparr>),
            d\<lparr>bookings := map (\<lambda>x. if booking_id x = bid
                 then x\<lparr>booking_status := st,
                        booking_paymentStatus := (if st = CONFIRMED then PAID else booking_paymentStatus x)\<rparr>
                 else x) (bookings d)\<rparr>)
         \<and> slots (snd (updateBookingStatus d bid st)) = slots d
         \<and> findSlot (snd (updateBookingStatus d bid st)) (booking_slotId b) = findSlot d (booking_slotId b)"
  using assms
  by (auto simp: updateBookingStatus_def transaction_def updateBooking_def findSlot_def)

text \<open>
  On the booked example: the overwrite to CANCELLED leaves slot \<open>s1\<close> BOOKED, where
  \<open>cancelBooking\<close> by the owner makes it AVAILABLE.
\<close>

theorem updateBookingStatus_frame_witness:
  "findBooking exBooked ''b1'' = Some exBooking
   \<and> map slot_status (slots (snd (updateBookingStatus exBooked ''b1'' CANCELLED))) = [BOOKED]
   \<and> map booking_status (bookings (snd (updateBookingStatus exBooked ''b1'' CANCELLED))) = [CANCELLED]
   \<and> map slot_status (slots (snd (cancelBooking (\<lambda>t. None) 0 exBooked ''b1'' ''u1'' False))) = [AVAILABLE]"
proof -
  have h: "findBooking exBooked ''b1'' = Some exBooking"
    by code_simp
  have s: "map slot_status (slots exBooked) = [BOOKED]"
    by code_simp
  have c: "map slot_status (slots (snd (cancelBooking (\<lambda>t. None) 0 exBooked ''b1'' ''u1'' False))) = [AVAILABLE]"
    by code_simp
  have b: "map booking_status (bookings (snd (updateBookingStatus exBooked ''b1'' CANCELLED))) = [CANCELLED]"
    by code_simp
  from updateBookingStatus_frame [OF h, of CANCELLED]
  have "slots (snd (updateBookingStatus exBooked ''b1'' CANCELLED)) = slots exBooked"
    by simp
  with h s c b show ?thesis
    by simp
qed

section \<open>Cancellation\<close>

lemma cancelBooking_success:
  assumes b: "findBooking d bid = Some b"
    and auth: "isAdmin \<or> booking_userId b = userId"
    and st: "booking_status b \<noteq> CANCELLED" "booking_status b \<noteq> COMPLETED"
    and s: "findSlot d (booking_slotId b) = Some s"
  shows "cancelBooking parseDate now d bid userId isAdmin =
    (let amt = amount (calculateRefund now (parseDate (slot_startTime s)) (booking_totalPrice b))
     in (Inr (b\<lparr>booking_status := CANCELLED, booking_refundAmount := Some amt,
                booking_paymentStatus := (if jgt amt (Num 0) then REFUNDED else booking_paymentStatus b)\<rparr>),
         d\<lparr>slots := map (\<lambda>x. if slot_id x = booking_slotId b then x\<lparr>slot_status := AVAILABLE\<rparr> else x) (slots d),
           bookings := map (\<lambda>x. if booking_id x = bid
              then x\<lparr>booking_status := CANCELLED, booking_refundAmount := Some amt,
                     booking_paymentStatus := (if jgt amt (Num 0) then REFUNDED else booking_paymentStatus b)\<rparr>
              else x) (bookings d)\<rparr>))"
  using assms
  by (auto simp: cancelBooking_def transaction_def updateSlotStatus_ok updateBooking_def findBooking_def Let_def)

lemma cancelBooking_error_unchanged:
  "fst (cancelBooking parseDate now d bid userId isAdmin) = Inl e \<Longrightarrow>
   snd (cancelBooking parseDate now d bid userId isAdmin) = d"
  by (auto simp: cancelBooking_def transaction_def Let_def split: option.splits sum.splits if_splits)

lemma cancelBooking_404:
  "failsWith 404 (cancelBooking parseDate now d bid userId isAdmin) \<longleftrightarrow> findBooking d bid = None"
  by (auto simp: failsWith_def cancelBooking_def transaction_def updateSlotStatus_def updateBooking_def Let_def
      split: option.splits sum.splits if_splits)

lemma cancelBooking_403:
  "failsWith 403 (cancelBooking parseDate now d bid userId isAdmin) \<longleftrightarrow>
     (\<exists>b. findBooking d bid = Some b \<and> \<not> isAdmin \<and> booking_userId b \<noteq> userId)"
  by (auto simp: failsWith_def cancelBooking_def transaction_def updateSlotStatus_def updateBooking_def Let_def
      split: option.splits sum.splits if_splits)

lemma cancelBooking_400:
  "failsWith 400 (cancelBooking parseDate now d bid userId isAdmin) \<longleftrightarrow>
     (\<exists>b. findBooking d bid = Some b \<and> (isAdmin \<or> booking_userId b = userId) \<and>
          (booking_status b = CANCELLED \<or> booking_status b = COMPLETED))"
  by (auto simp: failsWith_def cancelBooking_def transaction_def updateSlotStatus_def updateBooking_def Let_def
      split: option.splits sum.splits if_splits)

lemma cancelBooking_cancelled_fixed:
  assumes "findBooking d bid = Some b" "booking_status b = CANCELLED" "isAdmin \<or> booking_userId b = userId"
  shows "cancelBooking parseDate now d bid userId isAdmin =
          (Inl (AppError 400 ''INVALID_STATUS'' ''Booking is already cancelled''), d)"
  using assms by (auto simp: cancelBooking_def)

lemma cancelBooking_repeat:
  assumes "findBooking d bid = Some b" "booking_status b = CANCELLED" "isAdmin \<or> booking_userId b = userId"
  shows "((\<lambda>x. snd (cancelBooking parseDate now x bid userId isAdmin)) ^^ n) d = d"
  by (induction n) (simp_all add: cancelBooking_cancelled_fixed[OF assms])

lemma findBooking_after_cancel:
  assumes "findBooking d bid = Some b"
  shows "findBooking (d\<lparr>slots := ss, bookings := map (\<lambda>x. if booking_id x = bid
              then x\<lparr>booking_status := CANCELLED, booking_refundAmount := r,
                     booking_paymentStatus := p\<rparr> else x) (bookings d)\<rparr>) bid
         = Some (b\<lparr>booking_status := CANCELLED, booking_refundAmount := r, booking_paymentStatus := p\<rparr>)"
proof -
  have "find (\<lambda>x. booking_id x = bid) (map (\<lambda>x. if booking_id x = bid
              then x\<lparr>booking_status := CANCELLED, booking_refundAmount := r,
                     booking_paymentStatus := p\<rparr> else x) (bookings d))
        = map_option (\<lambda>x. if booking_id x = bid
              then x\<lparr>booking_status := CANCELLED, booking_refundAmount := r,
                     booking_paymentStatus := p\<rparr> else x) (find (\<lambda>x. booking_id x = bid) (bookings d))"
    by (rule find_map_id) simp
  with assms show ?thesis
    by (auto simp: findBooking_def dest: find_Some_mem)
qed

lemma cancelBooking_then_cancelled:
  assumes b: "findBooking d bid = Some b"
    and auth: "isAdmin \<or> booking_userId b = userId"
    and st: "booking_status b \<noteq> CANCELLED" "booking_status b \<noteq> COMPLETED"
    and s: "findSlot d (booking_slotId b) = Some s"
  shows "\<exists>b'. findBooking (snd (cancelBooking parseDate now d bid userId isAdmin)) bid = Some b'
            \<and> booking_status b' = CANCELLED \<and> booking_userId b' = booking_userId b"
  unfolding cancelBooking_success[OF assms] Let_def snd_conv
  by (simp add: findBooking_after_cancel[OF b])

text \<open>
  C5. \<open>cancelBooking\<close> checks in this order: it fails with status 404 exactly when no
  booking has the identifier; with 403 exactly when the booking exists and the requester is
  neither its owner nor an administrator; with 400 exactly when the booking exists, the
  requester is entitled, and the booking is CANCELLED or COMPLETED. A failure leaves the
  store as it was, so a cancelled booking is rejected with 400 on every repeated call. In
  every other case (the foreign key from bookings to slots holding) the transaction sets
  the status of the booking's slot to AVAILABLE, the status of the booking to CANCELLED and
  its refund amount to the computed refund, and the payment status to REFUNDED when the
  refund is positive and to what it was otherwise; a second cancellation then fails with 400.
\<close>

theorem cancelBooking_outcomes:
  assumes fk: "bookingsHaveSlots d"
  shows "(failsWith 404 (cancelBooking parseDate now d bid userId isAdmin) \<longleftrightarrow> findBooking d bid = None)
    \<and> (failsWith 403 (cancelBooking parseDate now d bid userId isAdmin) \<longleftrightarrow>
         (\<exists>b. findBooking d bid = Some b \<and> \<not> isAdmin \<and> booking_userId b \<noteq> userId))
    \<and> (failsWith 400 (cancelBooking parseDate now d bid userId isAdmin) \<longleftrightarrow>
         (\<exists>b. findBooking d bid = Some b \<and> (isAdmin \<or> booking_userId b = userId) \<and>
              (booking_status b = CANCELLED \<or> booking_status b = COMPLETED)))
    \<and> (\<forall>e. fst (cancelBooking parseDate now d bid userId isAdmin) = Inl e \<longrightarrow>
             snd (cancelBooking parseDate now d bid userId isAdmin) = d)
    \<and> (\<forall>b. findBooking d bid = Some b \<and> (isAdmin \<or> booking_userId b = userId) \<and>
             booking_status b = CANCELLED \<longrightarrow>
           (\<forall>n. failsWith 400 (cancelBooking parseDate now
                   (((\<lambda>x. snd (cancelBooking parseDate now x bid userId isAdmin)) ^^ n) d)
                   bid userId isAdmin)))
    \<and> (\<forall>b. findBooking d bid = Some b \<and> (isAdmin \<or> booking_userId b = userId) \<and>
             booking_status b \<noteq> CANCELLED \<and> booking_status b \<noteq> COMPLETED \<longrightarrow>
           (\<exists>s amt. findSlot d (booking_slotId b) = Some s
              \<and> amt = amount (calculateRefund now (parseDate (slot_startTime s)) (booking_totalPrice b))
              \<and> cancelBooking parseDate now d bid userId isAdmin =
                  (Inr (b\<lparr>booking_status := CANCELLED, booking_refundAmount := Some amt,
                         booking_paymentStatus :=
                           (if jgt amt (Num 0) then REFUNDED else booking_paymentStatus b)\<rparr>),
                   d\<lparr>slots := map (\<lambda>x. if slot_id x = booking_slotId b
                                      then x\<lparr>slot_status := AVAILABLE\<rparr> else x) (slots d),
                     bookings := map (\<lambda>x. if booking_id x = bid
                        then x\<lparr>booking_status := CANCELLED, booking_refundAmount := Some amt,
                               booking_paymentStatus :=
                                 (if jgt amt (Num 0) then REFUNDED else booking_paymentStatus b)\<rparr>
                        else x) (bookings d)\<rparr>)
              \<and> failsWith 400 (cancelBooking parseDate now
                    (snd (cancelBooking parseDate now d bid userId isAdmin)) bid userId isAdmin)))"
proof (intro conjI allI impI)
  show "failsWith 404 (cancelBooking parseDate now d bid userId isAdmin) \<longleftrightarrow> findBooking d bid = None"
    by (rule cancelBooking_404)
  show "failsWith 403 (cancelBooking parseDate now d bid userId isAdmin) \<longleftrightarrow>
         (\<exists>b. findBooking d bid = Some b \<and> \<not> isAdmin \<and> booking_userId b \<noteq> userId)"
    by (rule cancelBooking_403)
  show "failsWith 400 (cancelBooking parseDate now d bid userId isAdmin) \<longleftrightarrow>
         (\<exists>b. findBooking d bid = Some b \<and> (isAdmin \<or> booking_userId b = userId) \<and>
              (booking_status b = CANCELLED \<or> booking_status b = COMPLETED))"
    by (rule cancelBooking_400)
next
  fix e assume "fst (cancelBooking parseDate now d bid userId isAdmin) = Inl e"
  then show "snd (cancelBooking parseDate now d bid userId isAdmin) = d"
    by (rule cancelBooking_error_unchanged)
next
  fix b n
  assume h: "findBooking d bid = Some b \<and> (isAdmin \<or> booking_userId b = userId) \<and>
             booking_status b = CANCELLED"
  then have "((\<lambda>x. snd (cancelBooking parseDate now x bid userId isAdmin)) ^^ n) d = d"
    by (intro cancelBooking_repeat) auto
  moreover from h have "failsWith 400 (cancelBooking parseDate now d bid userId isAdmin)"
    unfolding cancelBooking_400 by blast
  ultimately show "failsWith 400 (cancelBooking parseDate now
                   (((\<lambda>x. snd (cancelBooking parseDate now x bid userId isAdmin)) ^^ n) d)
                   bid userId isAdmin)"
    by simp
next
  fix b
  assume h: "findBooking d bid = Some b \<and> (isAdmin \<or> booking_userId b = userId) \<and>
             booking_status b \<noteq> CANCELLED \<and> booking_status b \<noteq> COMPLETED"
  then have b: "findBooking d bid = Some b" and auth: "isAdmin \<or> booking_userId b = userId"
    and st: "booking_status b \<noteq> CANCELLED" "booking_status b \<noteq> COMPLETED"
    by auto
  from findBooking_slot[OF fk b] obtain s where s: "findSlot d (booking_slotId b) = Some s"
    by blast
  from cancelBooking_then_cancelled[OF b auth st s, of parseDate now]
  obtain b' where b': "findBooking (snd (cancelBooking parseDate now d bid userId isAdmin)) bid = Some b'"
      "booking_status b' = CANCELLED" "booking_userId b' = booking_userId b"
    by blast
  have again: "failsWith 400 (cancelBooking parseDate now
                    (snd (cancelBooking parseDate now d bid userId isAdmin)) bid userId isAdmin)"
    unfolding cancelBooking_400 using b' auth by auto
  show "\<exists>s amt. findSlot d (booking_slotId b) = Some s
              \<and> amt = amount (calculateRefund now (parseDate (slot_startTime s)) (booking_totalPrice b))
              \<and> cancelBooking parseDate now d bid userId isAdmin =
                  (Inr (b\<lparr>booking_status := CANCELLED, booking_refundAmount := Some amt,
                         booking_paymentStatus :=
                           (if jgt amt (Num 0) then REFUNDED else booking_paymentStatus b)\<rparr>),
                   d\<lparr>slots := map (\<lambda>x. if slot_id x = booking_slotId b
                                      then x\<lparr>slot_status := AVAILABLE\<rparr> else x) (slots d),
                     bookings := map (\<lambda>x. if booking_id x = bid
                        then x\<lparr>booking_status := CANCELLED, booking_refundAmount := Some amt,
                               booking_paymentStatus :=
                                 (if jgt amt (Num 0) then REFUNDED else booking_paymentStatus b)\<rparr>
                        else x) (bookings d)\<rparr>)
              \<and> failsWith 400 (cancelBooking parseDate now
                    (snd (cancelBooking parseDate now d bid userId isAdmin)) bid userId isAdmin)"
    using s again cancelBooking_success[OF b auth st s, of parseDate now]
    by (auto simp: Let_def)
qed

text \<open>
  On the booked example, with the slot start parsed as 30 hours after the call: an unknown
  identifier, a stranger, the owner, and an administrator cancelling again.
\<close>

theorem cancelBooking_outcomes_witness:
  "bookingsHaveSlots exBooked
   \<and> failsWith 404 (cancelBooking (\<lambda>t. Some 108000000) 0 exBooked ''b9'' ''u1'' False)
   \<and> failsWith 403 (cancelBooking (\<lambda>t. Some 108000000) 0 exBooked ''b1'' ''u2'' False)
   \<and> \<not> failsWith 400 (cancelBooking (\<lambda>t. Some 108000000) 0 exBooked ''b1'' ''u1'' False)
   \<and> map slot_status (slots (snd (cancelBooking (\<lambda>t. Some 108000000) 0 exBooked ''b1'' ''u1'' False)))
        = [AVAILABLE]
   \<and> map booking_status (bookings (snd (cancelBooking (\<lambda>t. Some 108000000) 0 exBooked ''b1'' ''u1'' False)))
        = [CANCELLED]
   \<and> map booking_refundAmount (bookings (snd (cancelBooking (\<lambda>t. Some 108000000) 0 exBooked ''b1'' ''u1'' False)))
        = [Some (Num 80)]
   \<and> map booking_paymentStatus (bookings (snd (cancelBooking (\<lambda>t. Some 108000000) 0 exBooked ''b1'' ''u1'' False)))
        = [REFUNDED]
   \<and> failsWith 400 (cancelBooking (\<lambda>t. Some 108000000) 0
        (snd (cancelBooking (\<lambda>t. Some 108000000) 0 exBooked ''b1'' ''u1'' False)) ''b1'' ''a1'' True)"
proof -
  have fk: "bookingsHaveSlots exBooked"
    by code_simp
  have b: "findBooking exBooked ''b1'' = Some exBooking" and n: "findBooking exBooked ''b9'' = None"
    by code_simp+
  have eb: "booking_userId exBooking = ''u1''" "booking_status exBooking = PENDING"
    by (simp_all add: exBooking_def)
  note T = cancelBooking_outcomes [OF fk, of "\<lambda>t. Some 108000000" 0]
  have c1: "failsWith 404 (cancelBooking (\<lambda>t. Some 108000000) 0 exBooked ''b9'' ''u1'' False)"
    using T [of "''b9''" "''u1''" False, THEN conjunct1] n by simp
  have c2: "failsWith 403 (cancelBooking (\<lambda>t. Some 108000000) 0 exBooked ''b1'' ''u2'' False)"
    using T [of "''b1''" "''u2''" False, THEN conjunct2, THEN conjunct1] b eb by simp
  have c3: "\<not> failsWith 400 (cancelBooking (\<lambda>t. Some 108000000) 0 exBooked ''b1'' ''u1'' False)"
    using T [of "''b1''" "''u1''" False, THEN conjunct2, THEN conjunct2, THEN conjunct1] b eb by simp
  have c4: "map slot_status (slots (snd (cancelBooking (\<lambda>t. Some 108000000) 0 exBooked ''b1'' ''u1'' False)))
        = [AVAILABLE]"
    by code_simp
  have c5: "map booking_status (bookings (snd (cancelBooking (\<lambda>t. Some 108000000) 0 exBooked ''b1'' ''u1'' False)))
        = [CANCELLED]"
    by code_simp
  have c6: "map booking_refundAmount (bookings (snd (cancelBooking (\<lambda>t. Some 108000000) 0 exBooked ''b1'' ''u1'' False)))
        = [Some (Num 80)]"
    by code_simp
  have c7: "map booking_paymentStatus (bookings (snd (cancelBooking (\<lambda>t. Some 108000000) 0 exBooked ''b1'' ''u1'' False)))
        = [REFUNDED]"
    by code_simp
  have c8: "failsWith 400 (cancelBooking (\<lambda>t. Some 108000000) 0
        (snd (cancelBooking (\<lambda>t. Some 108000000) 0 exBooked ''b1'' ''u1'' False)) ''b1'' ''a1'' True)"
    by code_simp
  from fk c1 c2 c3 c4 c5 c6 c7 c8 show ?thesis
    by simp
qed

section \<open>Booking creation\<close>














section \<open>Review creation\<close>

lemma createReview_404:
  "findVenue d venueId = None \<Longrightarrow>
   createReview newId d venueId rating comment userId = (Inl (AppError 404 ''NOT_FOUND'' ''Venue not found''), d)"
  by (simp add: createReview_def)

lemma createReview_409:
  assumes "findVenue d venueId \<noteq> None"
    and "\<exists>r\<in>set (reviews d). review_userId r = userId \<and> review_venueId r = venueId"
  shows "createReview newId d venueId rating comment userId =
    (Inl (AppError 409 ''DUPLICATE_REVIEW''
       ''You have already reviewed this venue. You can update your existing review.''), d)"
  using assms by (auto simp: createReview_def list_ex_iff)

lemma createReview_403:
  assumes "findVenue d venueId \<noteq> None"
    and "\<not> (\<exists>r\<in>set (reviews d). review_userId r = userId \<and> review_venueId r = venueId)"
    and "\<not> (\<exists>b\<in>set (bookings d). booking_userId b = userId \<and> booking_status b = COMPLETED \<and>
             (\<exists>s. findSlot d (booking_slotId b) = Some s \<and> slot_venueId s = venueId))"
  shows "createReview newId d venueId rating comment userId =
    (Inl (AppError 403 ''NO_COMPLETED_BOOKING''
       ''You must have a completed booking at this venue to leave a review''), d)"
  using assms by (auto simp: createReview_def list_ex_iff split: option.splits)

lemma createReview_ok:
  assumes "findVenue d venueId \<noteq> None"
    and "\<not> (\<exists>r\<in>set (reviews d). review_userId r = userId \<and> review_venueId r = venueId)"
    and "\<exists>b\<in>set (bookings d). booking_userId b = userId \<and> booking_status b = COMPLETED \<and>
             (\<exists>s. findSlot d (booking_slotId b) = Some s \<and> slot_venueId s = venueId)"
    and "findUser d userId \<noteq> None"
  shows "createReview newId d venueId rating comment userId =
    (Inr \<lparr>review_id = newId, review_userId = userId, review_venueId = venueId,
           review_rating = rating, review_comment = comment\<rparr>,
     d\<lparr>reviews := reviews d @ [\<lparr>review_id = newId, review_userId = userId, review_venueId = venueId,
           review_rating = rating, review_comment = comment\<rparr>]\<rparr>)"
proof -
  from assms(3) have "list_ex (\<lambda>b. booking_userId b = userId \<and> booking_status b = COMPLETED \<and>
                      (case findSlot d (booking_slotId b) of
                         None \<Rightarrow> False
                       | Some s \<Rightarrow> slot_venueId s = venueId)) (bookings d)"
    unfolding list_ex_iff by force
  with assms(1,2,4) show ?thesis
    by (auto simp: createReview_def insertReview_def list_ex_iff Let_def)
qed

text \<open>
  C9. \<open>createReview\<close> checks in this order: it fails with 404 when the venue is absent;
  with 409 when the venue exists and a review of this user for this venue exists; with 403
  when neither holds and the user has no COMPLETED booking whose slot belongs to the venue.
  Otherwise (the user being a row of \<open>users\<close>) the review is appended, and every later
  review by the same user for the same venue fails with 409.
\<close>

theorem createReview_outcomes:
  "(findVenue d venueId = None \<longrightarrow>
      createReview newId d venueId rating comment userId =
        (Inl (AppError 404 ''NOT_FOUND'' ''Venue not found''), d))
   \<and> (findVenue d venueId \<noteq> None \<and>
       (\<exists>r\<in>set (reviews d). review_userId r = userId \<and> review_venueId r = venueId) \<longrightarrow>
      createReview newId d venueId rating comment userId =
        (Inl (AppError 409 ''DUPLICATE_REVIEW''
           ''You have already reviewed this venue. You can update your existing review.''), d))
   \<and> (findVenue d venueId \<noteq> None \<and>
       \<not> (\<exists>r\<in>set (reviews d). review_userId r = userId \<and> review_venueId r = venueId) \<and>
       \<not> (\<exists>b\<in>set (bookings d). booking_userId b = userId \<and> booking_status b = COMPLETED \<and>
             (\<exists>s. findSlot d (booking_slotId b) = Some s \<and> slot_venueId s = venueId)) \<longrightarrow>
      createReview newId d venueId rating comment userId =
        (Inl (AppError 403 ''NO_COMPLETED_BOOKING''
           ''You must have a completed booking at this venue to leave a review''), d))
   \<and> (findVenue d venueId \<noteq> None \<and>
       \<not> (\<exists>r\<in>set (reviews d). review_userId r = userId \<and> review_venueId r = venueId) \<and>
       (\<exists>b\<in>set (bookings d). booking_userId b = userId \<and> booking_status b = COMPLETED \<and>
             (\<exists>s. findSlot d (booking_slotId b) = Some s \<and> slot_venueId s = venueId)) \<and>
       findUser d userId \<noteq> None \<longrightarrow>
      createReview newId d venueId rating comment userId =
        (Inr \<lparr>review_id = newId, review_userId = userId, review_venueId = venueId,
               review_rating = rating, review_comment = comment\<rparr>,
         d\<lparr>reviews := reviews d @ [\<lparr>review_id = newId, review_userId = userId,
               review_venueId = venueId, review_rating = rating, review_comment = comment\<rparr>]\<rparr>)
      \<and> (\<forall>newId' rating' comment'.
            failsWith 409 (createReview newId'
              (snd (createReview newId d venueId rating comment userId))
              venueId rating' comment' userId)))"
proof (intro conjI allI impI)
  assume "findVenue d venueId = None"
  then show "createReview newId d venueId rating comment userId =
        (Inl (AppError 404 ''NOT_FOUND'' ''Venue not found''), d)"
    by (rule createReview_404)
next
  assume "findVenue d venueId \<noteq> None \<and>
       (\<exists>r\<in>set (reviews d). review_userId r = userId \<and> review_venueId r = venueId)"
  then show "createReview newId d venueId rating comment userId =
        (Inl (AppError 409 ''DUPLICATE_REVIEW''
           ''You have already reviewed this venue. You can update your existing review.''), d)"
    by (intro createReview_409) auto
next
  assume "findVenue d venueId \<noteq> None \<and>
       \<not> (\<exists>r\<in>set (reviews d). review_userId r = userId \<and> review_venueId r = venueId) \<and>
       \<not> (\<exists>b\<in>set (bookings d). booking_userId b = userId \<and> booking_status b = COMPLETED \<and>
             (\<exists>s. findSlot d (booking_slotId b) = Some s \<and> slot_venueId s = venueId))"
  then show "createReview newId d venueId rating comment userId =
        (Inl (AppError 403 ''NO_COMPLETED_BOOKING''
           ''You must have a completed booking at this venue to leave a review''), d)"
    by (intro createReview_403) auto
next
  assume h: "findVenue d venueId \<noteq> None \<and>
       \<not> (\<exists>r\<in>set (reviews d). review_userId r = userId \<and> review_venueId r = venueId) \<and>
       (\<exists>b\<in>set (bookings d). booking_userId b = userId \<and> booking_status b = COMPLETED \<and>
             (\<exists>s. findSlot d (booking_slotId b) = Some s \<and> slot_venueId s = venueId)) \<and>
       findUser d userId \<noteq> None"
  then show ok: "createReview newId d venueId rating comment userId =
        (Inr \<lparr>review_id = newId, review_userId = userId, review_venueId = venueId,
               review_rating = rating, review_comment = comment\<rparr>,
         d\<lparr>reviews := reviews d @ [\<lparr>review_id = newId, review_userId = userId,
               review_venueId = venueId, review_rating = rating, review_comment = comment\<rparr>]\<rparr>)"
    by (intro createReview_ok) auto
  fix newId' rating' comment'
  have "createReview newId' (snd (createReview newId d venueId rating comment userId))
              venueId rating' comment' userId =
        (Inl (AppError 409 ''DUPLICATE_REVIEW''
           ''You have already reviewed this venue. You can update your existing review.''),
         snd (createReview newId d venueId rating comment userId))"
    using h unfolding ok by (intro createReview_409) (auto simp: findVenue_def)
  then show "failsWith 409 (createReview newId'
              (snd (createReview newId d venueId rating comment userId))
              venueId rating' comment' userId)"
    by (simp add: failsWith_def)
qed

text \<open>
  On the completed example: an unknown venue, a user without a booking, the same user before
  completion, the first review of \<open>u1\<close> and the second.
\<close>

theorem createReview_outcomes_witness:
  "findVenue exCompleted ''v9'' = None
   \<and> failsWith 404 (createReview ''r1'' exCompleted ''v9'' 5 None ''u1'')
   \<and> failsWith 403 (createReview ''r1'' exCompleted ''v1'' 5 None ''u2'')
   \<and> failsWith 403 (createReview ''r1'' exBooked ''v1'' 5 None ''u1'')
   \<and> map review_userId (reviews (snd (createReview ''r1'' exCompleted ''v1'' 5 None ''u1''))) = [''u1'']
   \<and> failsWith 409 (createReview ''r2''
        (snd (createReview ''r1'' exCompleted ''v1'' 5 None ''u1'')) ''v1'' 1 None ''u1'')"
proof -
  have n: "findVenue exCompleted ''v9'' = None"
    by code_simp
  from createReview_outcomes [of exCompleted "''v9''" "''r1''" 5 None "''u1''", THEN conjunct1] n
  have c1: "failsWith 404 (createReview ''r1'' exCompleted ''v9'' 5 None ''u1'')"
    by (simp add: failsWith_def)
  have c2: "failsWith 403 (createReview ''r1'' exCompleted ''v1'' 5 None ''u2'')"
    and c3: "failsWith 403 (createReview ''r1'' exBooked ''v1'' 5 None ''u1'')"
    and c4: "map review_userId (reviews (snd (createReview ''r1'' exCompleted ''v1'' 5 None ''u1''))) = [''u1'']"
    and c5: "failsWith 409 (createReview ''r2''
        (snd (createReview ''r1'' exCompleted ''v1'' 5 None ''u1'')) ''v1'' 1 None ''u1'')"
    by code_simp+
  from n c1 c2 c3 c4 c5 show ?thesis
    by simp
qed

section \<open>The start of a slot read as a date\<close>

lemma floor_half: "\<lfloor>(1 / 2 :: rat)\<rfloor> = 0"
  by (simp add: floor_eq_iff)

lemma calculateRefund_invalid:
  "calculateRefund now None (Num x) =
     \<lparr>eligible = False, percentage = 0, amount = Num 0,
      refund_reason = ''Cancelled less than 12 hours before start''\<rparr>"
  by (simp add: calculateRefund_def floor_half)

lemma calculateRefund_table:
  "calculateRefund now (Some t) (Num x) =
     (let h = (of_int t - of_int now) / 3600000 :: rat;
          p = (if h > 24 then 100 else if h \<ge> 12 then 50 else 0)
      in \<lparr>eligible = (p > 0), percentage = p, amount = Num (spec_round2 (x * p / 100)),
          refund_reason =
            (if h > 24 then ''Cancelled more than 24 hours before start''
             else if h \<ge> 12 then ''Cancelled 12-24 hours before start''
             else ''Cancelled less than 12 hours before start'')\<rparr>)"
  by (simp add: calculateRefund_def spec_round2_def Let_def)

lemma checkSlotAvailability_iff:
  "available (checkSlotAvailability parseDate now d slotId) \<longleftrightarrow>
     (\<exists>s. findSlot d slotId = Some s \<and> slot_status s = AVAILABLE \<and> activeBookings d slotId = []
          \<and> \<not> date_lt (parseDate (slot_startTime s)) (Some now))"
  by (auto simp: checkSlotAvailability_def split: option.splits)

lemma date_lt_invalid: "\<not> date_lt None b"
  by (simp add: date_lt_def)

text \<open>
  C4, the failing case. The check compares \<open>new Date(slot.startTime)\<close> with the call
  time; the column \<open>startTime\<close> holds a time of day and the column \<open>date\<close> is never
  read. When the time of day does not parse as a date (\<open>None\<close>, the Invalid Date of the
  runtime for a text such as 10:00), a free slot without active booking is reported
  available whatever its day and whatever the call time: so is the slot of 1970-01-01 at a
  call in 2024. Whatever the parser does, the slot of day 0 and the slot of day 20000 get
  the same answer at every call time.
\<close>

theorem checkSlotAvailability_past_slot:
  "(parseDate (slot_startTime s) = None \<and> findSlot d slotId = Some s \<and> slot_status s = AVAILABLE \<and>
      activeBookings d slotId = [] \<longrightarrow>
    available (checkSlotAvailability parseDate now d slotId))
   \<and> (parseDate ''10:00'' = None \<longrightarrow>
        available (checkSlotAvailability parseDate exStart exPast ''s1''))
   \<and> available (checkSlotAvailability parseDate now exPast ''s1'')
        = available (checkSlotAvailability parseDate now exDb ''s1'')"
proof (intro conjI impI)
  assume "parseDate (slot_startTime s) = None \<and> findSlot d slotId = Some s \<and> slot_status s = AVAILABLE \<and>
      activeBookings d slotId = []"
  then show "available (checkSlotAvailability parseDate now d slotId)"
    unfolding checkSlotAvailability_iff by (simp add: date_lt_invalid)
next
  have s: "findSlot exPast ''s1'' = Some (exSlot\<lparr>slot_date := 0\<rparr>)" "activeBookings exPast ''s1'' = []"
    by code_simp+
  assume "parseDate ''10:00'' = None"
  with s show "available (checkSlotAvailability parseDate exStart exPast ''s1'')"
    unfolding checkSlotAvailability_iff by (simp add: date_lt_invalid exSlot_def)
next
  have s: "findSlot exPast ''s1'' = Some (exSlot\<lparr>slot_date := 0\<rparr>)" "activeBookings exPast ''s1'' = []"
    "findSlot exDb ''s1'' = Some exSlot" "activeBookings exDb ''s1'' = []"
    by code_simp+
  show "available (checkSlotAvailability parseDate now exPast ''s1'')
        = available (checkSlotAvailability parseDate now exDb ''s1'')"
    unfolding checkSlotAvailability_iff s by (simp add: exSlot_def)
qed

text \<open>The slot of day 0, asked at 10:00 of day 20000, with the runtime's parser.\<close>

theorem checkSlotAvailability_past_slot_witness:
  "findSlot exPast ''s1'' = Some (exSlot\<lparr>slot_date := 0\<rparr>)
   \<and> slot_status (exSlot\<lparr>slot_date := 0\<rparr>) = AVAILABLE
   \<and> activeBookings exPast ''s1'' = []
   \<and> available (checkSlotAvailability (\<lambda>t. None) exStart exPast ''s1'')"
proof -
  have s: "findSlot exPast ''s1'' = Some (exSlot\<lparr>slot_date := 0\<rparr>)"
    and a: "activeBookings exPast ''s1'' = []" and st: "slot_status (exSlot\<lparr>slot_date := 0\<rparr>) = AVAILABLE"
    by code_simp+
  from checkSlotAvailability_past_slot [of "\<lambda>t. None" "exSlot\<lparr>slot_date := 0\<rparr>" exPast "''s1''" exStart,
      THEN conjunct1] s a st
  have "available (checkSlotAvailability (\<lambda>t. None) exStart exPast ''s1'')"
    by simp
  with s a st show ?thesis
    by simp
qed

lemma exBooked_cancel:
  "cancelBooking parseDate now exBooked ''b1'' ''u1'' False =
    (let amt = amount (calculateRefund now (parseDate ''10:00'') (Num 80))
     in (Inr (exBooking\<lparr>booking_status := CANCELLED, booking_refundAmount := Some amt,
                booking_paymentStatus := (if jgt amt (Num 0) then REFUNDED else PAYMENT_PENDING)\<rparr>),
         exBooked\<lparr>slots := [exSlot],
           bookings := [exBooking\<lparr>booking_status := CANCELLED, booking_refundAmount := Some amt,
                     booking_paymentStatus := (if jgt amt (Num 0) then REFUNDED else PAYMENT_PENDING)\<rparr>]\<rparr>))"
proof -
  have b: "findBooking exBooked ''b1'' = Some exBooking"
    and s: "findSlot exBooked (booking_slotId exBooking) = Some (exSlot\<lparr>slot_status := BOOKED\<rparr>)"
    by code_simp+
  show ?thesis
    unfolding cancelBooking_success [OF b _ _ _ s, of False "''u1''" parseDate now, simplified exBooking_def, simplified]
    by (simp add: exBooking_def exBooked_def exSlot_def exDb_def Let_def)
qed


lemma exLater_cancel:
  "fst (cancelBooking parseDate now exLater ''b1'' ''u1'' False) =
    (let amt = amount (calculateRefund now (parseDate ''10:00'') (Num 80))
     in Inr (exBooking\<lparr>booking_status := CANCELLED, booking_refundAmount := Some amt,
                booking_paymentStatus := (if jgt amt (Num 0) then REFUNDED else PAYMENT_PENDING)\<rparr>))"
proof -
  have b: "findBooking exLater ''b1'' = Some exBooking"
    and s: "findSlot exLater (booking_slotId exBooking)
              = Some (exSlot\<lparr>slot_status := BOOKED, slot_date := 20365\<rparr>)"
    by code_simp+
  show ?thesis
    unfolding cancelBooking_success [OF b _ _ _ s, of False "''u1''" parseDate now, simplified exBooking_def, simplified]
    by (simp add: exBooking_def exSlot_def Let_def)
qed

lemma calculateRefund_boundaries:
  "percentage (calculateRefund 0 (Some (25 * 3600000)) (Num x)) = 100"
  "percentage (calculateRefund 0 (Some (24 * 3600000)) (Num x)) = 50"
  "percentage (calculateRefund 0 (Some (12 * 3600000)) (Num x)) = 50"
  "percentage (calculateRefund 0 (Some (1199 * 36000)) (Num x)) = 0"
  by (simp_all add: calculateRefund_table Let_def)

text \<open>
  C3, the failing case. \<open>calculateRefund\<close> follows the table of the refund policy on a valid
  start (\<open>calculateRefund_table\<close>, \<open>calculateRefund_boundaries\<close>), but
  \<open>cancelBooking\<close> hands it \<open>new Date(slot.startTime)\<close>, the time of day alone. With
  the Invalid Date the hours until start are \<open>NaN\<close>, both comparisons are false, and the
  booking of the example, cancelled exactly 25 hours before its slot starts, is refunded 0
  with its payment status unchanged, where the table gives 100 percent, 80.00. Whatever the
  parser does, the same booking with its slot a year later gets the same refund.
\<close>

theorem cancelBooking_refund_without_date:
  "(parseDate ''10:00'' = None \<longrightarrow>
      map booking_refundAmount
        (bookings (snd (cancelBooking parseDate exNow25 exBooked ''b1'' ''u1'' False))) = [Some (Num 0)]
      \<and> map booking_paymentStatus
        (bookings (snd (cancelBooking parseDate exNow25 exBooked ''b1'' ''u1'' False))) = [PAYMENT_PENDING])
   \<and> percentage (calculateRefund exNow25 (Some exStart) (Num 80)) = 100
   \<and> amount (calculateRefund exNow25 (Some exStart) (Num 80)) = Num 80
   \<and> fst (cancelBooking parseDate now exLater ''b1'' ''u1'' False)
       = fst (cancelBooking parseDate now exBooked ''b1'' ''u1'' False)"
proof (intro conjI impI)
  assume p: "parseDate ''10:00'' = None"
  show "map booking_refundAmount
        (bookings (snd (cancelBooking parseDate exNow25 exBooked ''b1'' ''u1'' False))) = [Some (Num 0)]"
    unfolding exBooked_cancel p by (simp add: calculateRefund_invalid Let_def)
  show "map booking_paymentStatus
        (bookings (snd (cancelBooking parseDate exNow25 exBooked ''b1'' ''u1'' False))) = [PAYMENT_PENDING]"
    unfolding exBooked_cancel p by (simp add: calculateRefund_invalid Let_def)
next
  show "percentage (calculateRefund exNow25 (Some exStart) (Num 80)) = 100"
    by code_simp
  show "amount (calculateRefund exNow25 (Some exStart) (Num 80)) = Num 80"
    by code_simp
  show "fst (cancelBooking parseDate now exLater ''b1'' ''u1'' False)
       = fst (cancelBooking parseDate now exBooked ''b1'' ''u1'' False)"
    unfolding exBooked_cancel exLater_cancel by (simp add: Let_def)
qed

text \<open>The cancellation 25 hours before the start, with the runtime's parser.\<close>

theorem cancelBooking_refund_without_date_witness:
  "map booking_refundAmount
     (bookings (snd (cancelBooking (\<lambda>t. None) exNow25 exBooked ''b1'' ''u1'' False))) = [Some (Num 0)]
   \<and> map booking_paymentStatus
     (bookings (snd (cancelBooking (\<lambda>t. None) exNow25 exBooked ''b1'' ''u1'' False))) = [PAYMENT_PENDING]
   \<and> map slot_date (slots exBooked) = [20000]
   \<and> exStart - exNow25 = 25 * 3600000"
proof -
  have d: "map slot_date (slots exBooked) = [20000]" and t: "exStart - exNow25 = 25 * 3600000"
    by code_simp+
  from cancelBooking_refund_without_date [of "\<lambda>t. None", THEN conjunct1] d t
  show ?thesis
    by simp
qed

section \<open>Overlap of slots\<close>

lemma isDigit_Number1: "isDigit a \<Longrightarrow> \<exists>n. Number [a] = Num n"
  by (auto simp: isDigit_def Number_def)

lemma isDigit_Number2: "isDigit a \<Longrightarrow> isDigit b \<Longrightarrow> \<exists>n. Number [a, b] = Num n"
  by (auto simp: isDigit_def Number_def)

lemma isDigit_lits:
  "isDigit CHR ''0''" "isDigit CHR ''1''" "isDigit CHR ''2''" "isDigit CHR ''3''"
  "isDigit CHR ''4''" "isDigit CHR ''5''"
  by (simp_all add: isDigit_def digit_of_def)

lemma validHour_Number: "validHour h \<Longrightarrow> \<exists>n. Number h = Num n"
  unfolding validHour_def
  by (auto split: list.splits intro: isDigit_Number1 isDigit_Number2 simp: isDigit_lits)

lemma validMinute_Number: "validMinute m \<Longrightarrow> \<exists>n. Number m = Num n"
  unfolding validMinute_def
  by (auto split: list.splits intro: isDigit_Number2 simp: isDigit_lits)

lemma validTime_parses: "validTime t \<Longrightarrow> \<exists>h m. hours_minutes t = (Num h, Num m)"
  unfolding validTime_def hours_minutes_def
  by (auto split: list.splits dest: validHour_Number validMinute_Number)

lemma timeOn_valid: "validTime t \<Longrightarrow> \<exists>x. timeOn day t = Some x"
  by (auto simp: timeOn_def dateOfDay_def dest!: validTime_parses)

lemma genSlot_eq:
  "genSlot venueId status day ts =
     \<lparr>data_venueId = venueId, data_date = day, data_startTime = fst ts, data_endTime = snd ts,
      data_status = (case status of None \<Rightarrow> AVAILABLE | Some st \<Rightarrow> st)\<rparr>"
  by (simp add: genSlot_def Let_def split: prod.splits)



lemma setHours_midnight: "setHours (Some t) (Num 0) (Num 0) = Some (t - t mod 86400000)"
  by simp









section \<open>Bulk creation of slots\<close>

lemma findVenue_slots [simp]: "findVenue (d\<lparr>slots := ss\<rparr>) v = findVenue d v"
  by (simp add: findVenue_def)








text \<open>
  C8, the failing case. The loop computes the end rolled over to the next day and drops
  it: the object pushed, and so the row stored, holds the day and the two texts of the
  template and nothing of the next day. For the template 23:00 to 01:00 the row is
  (day 20000, 23:00, 01:00); its price at 40.00 per hour is -880.00, that of minus 22 hours,
  where two hours cost 80.00; and a candidate from 00:30 to 01:30 on the next day passes the
  overlap check afterwards.
\<close>

theorem createBulkSlots_rollover_dropped:
  "genSlot venueId status day ts =
     \<lparr>data_venueId = venueId, data_date = day, data_startTime = fst ts, data_endTime = snd ts,
      data_status = (case status of None \<Rightarrow> AVAILABLE | Some st \<Rightarrow> st)\<rparr>
   \<and> date_le (timeOn 20000 ''01:00'') (timeOn 20000 ''23:00'')
   \<and> map (\<lambda>s. (slot_date s, slot_startTime s, slot_endTime s))
        (slots (snd (createBulkSlots exIds exEmpty ''v1'' [20000] [(''23:00'', ''01:00'')] None ''a1'')))
      = [(20000, ''23:00'', ''01:00'')]
   \<and> calculatePrice ''23:00'' ''01:00'' 40 = Num (- 880)
   \<and> hasSlotOverlap
        (snd (createBulkSlots exIds exEmpty ''v1'' [20000] [(''23:00'', ''01:00'')] None ''a1''))
        ''v1'' (timeOn 20001 ''00:30'') (timeOn 20001 ''01:30'') None = Inr False"
proof (intro conjI)
  show "genSlot venueId status day ts =
     \<lparr>data_venueId = venueId, data_date = day, data_startTime = fst ts, data_endTime = snd ts,
      data_status = (case status of None \<Rightarrow> AVAILABLE | Some st \<Rightarrow> st)\<rparr>"
    by (rule genSlot_eq)
  show "date_le (timeOn 20000 ''01:00'') (timeOn 20000 ''23:00'')"
    by code_simp
  show "map (\<lambda>s. (slot_date s, slot_startTime s, slot_endTime s))
        (slots (snd (createBulkSlots exIds exEmpty ''v1'' [20000] [(''23:00'', ''01:00'')] None ''a1'')))
      = [(20000, ''23:00'', ''01:00'')]"
    by code_simp
  show "calculatePrice ''23:00'' ''01:00'' 40 = Num (- 880)"
    by code_simp
  show "hasSlotOverlap
        (snd (createBulkSlots exIds exEmpty ''v1'' [20000] [(''23:00'', ''01:00'')] None ''a1''))
        ''v1'' (timeOn 20001 ''00:30'') (timeOn 20001 ''01:30'') None = Inr False"
    by code_simp
qed

section \<open>Racing calls of createBooking\<close>

text \<open>A call scheduled alone, three steps in a row, is \<open>createBooking\<close>.\<close>

lemma run_alone:
  "run parseDate [0, 0, 0] ([newCall now newId slotId userId], d) =
     ([(newCall now newId slotId userId)
         \<lparr>call_point := Finished (fst (createBooking parseDate now newId d slotId userId))\<rparr>],
      snd (createBooking parseDate now newId d slotId userId))"
  by (auto simp: call_step_def newCall_def createBooking_def Let_def
      split: option.splits sum.splits prod.splits)

text \<open>
  C2, the failing case. The availability check runs before the transaction and the
  transaction does not repeat it: the update of the slot is unconditional and no constraint
  limits the bookings of a slot. When both calls pass the check before either commits
  (schedule 0, 1, 0, 1, 0, 1), both succeed and slot \<open>s1\<close> has two PENDING bookings; this
  is so with the start of the slot read as the Invalid Date and with it read as a date 25
  hours ahead. When the first call finishes before the second starts, the second fails with
  409.
\<close>

theorem createBooking_race:
  "map succeeded (fst (run (\<lambda>t. None) [0, 1, 0, 1, 0, 1] (exRace, exDb))) = [True, True]
   \<and> map (\<lambda>b. (booking_id b, booking_userId b, booking_slotId b, booking_status b))
        (bookings (snd (run (\<lambda>t. None) [0, 1, 0, 1, 0, 1] (exRace, exDb))))
      = [(''b1'', ''u1'', ''s1'', PENDING), (''b2'', ''u2'', ''s1'', PENDING)]
   \<and> length (activeBookings (snd (run (\<lambda>t. None) [0, 1, 0, 1, 0, 1] (exRace, exDb))) ''s1'') = 2
   \<and> map succeeded (fst (run (\<lambda>t. Some exStart) [0, 1, 0, 1, 0, 1] (exRace, exDb))) = [True, True]
   \<and> length (activeBookings (snd (run (\<lambda>t. Some exStart) [0, 1, 0, 1, 0, 1] (exRace, exDb))) ''s1'') = 2
   \<and> map succeeded (fst (run (\<lambda>t. None) [0, 0, 0, 1, 1, 1] (exRace, exDb))) = [True, False]
   \<and> map conflicted (fst (run (\<lambda>t. None) [0, 0, 0, 1, 1, 1] (exRace, exDb))) = [False, True]"
  by code_simp

end
